theory Spec2Isabelle
  imports Main
begin

unbundle bit_operations_syntax

section \<open>Python values, exceptions and the world of one register\<close>

text \<open>
  The register classes of \<^verbatim>\<open>picoregisters.py\<close> are thin adapters: each holds a cached
  value, a reference to one peripheral object, and forwards \<^verbatim>\<open>read\<close>/\<^verbatim>\<open>write\<close> to it.
  A method is modelled as a function from the world before the call to an outcome and the
  world after the call. The world is returned in both cases, because a Python exception
  does not undo the assignments made before it was raised.
\<close>

text \<open>Modelled from the spec: the type tags of \<^verbatim>\<open>microharp.types.HarpTypes\<close> (section 3,
  RegisterType); the module is imported by the source and is not part of it.\<close>

datatype HarpTypes = U8 | U16 | U32 | U64 | S8 | S16 | S32 | S64 | Float | Double

text \<open>The Python objects that reach these classes: \<^verbatim>\<open>None\<close>, booleans, integers and
  tuples of integers (the payload of a bus request).\<close>

datatype pyobj = PNone | PBool bool | PInt int | PTuple "int list"

text \<open>Python's truth value of an object, \<^verbatim>\<open>bool(x)\<close>.\<close>

fun truthy :: "pyobj \<Rightarrow> bool" where
  "truthy PNone = False"
| "truthy (PBool b) = b"
| "truthy (PInt n) = (n \<noteq> 0)"
| "truthy (PTuple xs) = (xs \<noteq> [])"

text \<open>The exceptions: \<^verbatim>\<open>ValueError\<close> is raised by the source's \<^verbatim>\<open>validate\<close> methods,
  \<^verbatim>\<open>IndexError\<close> by \<^verbatim>\<open>value[0]\<close> on an empty tuple, the two mismatches by the base
  register contract (section 4.1 and 7 of the spec).\<close>

datatype exn = TypeMismatch | LengthMismatch | ValueError | IndexError

text \<open>
  The history of one world: every store into the cached value and every action on the
  peripheral (a method call or an attribute assignment) is appended, in the order in which
  it happens. Attribute reads (\<^verbatim>\<open>state\<close>, \<^verbatim>\<open>enabled\<close>) are pure queries and leave no event.
\<close>

datatype event =
    Stored "int list"
  | Call_set_state int
  | Call_clear_state "int option"
  | Call_toggle_state int
  | Call_read_u16
  | Call_enable
  | Call_disable
  | Assign_frequency int
  | Assign_dutycyle int
  | Call_start
  | Call_stop

fun is_action :: "event \<Rightarrow> bool" where
  "is_action (Stored _) = False"
| "is_action _ = True"

text \<open>The attributes of a register object: \<^verbatim>\<open>self.typ\<close> and \<^verbatim>\<open>self.value\<close>.\<close>

record register =
  reg_typ :: HarpTypes
  reg_value :: pyobj

text \<open>A world: the register object, the peripheral object it references, the history.\<close>

record 'p world =
  self :: register
  periph :: 'p
  trace :: "event list"

type_synonym ('a, 'p) py = "'p world \<Rightarrow> (exn + 'a) \<times> 'p world"

definition py_return :: "'a \<Rightarrow> ('a, 'p) py" where
  "py_return a = (\<lambda>w. (Inr a, w))"

definition py_raise :: "exn \<Rightarrow> ('a, 'p) py" where
  "py_raise e = (\<lambda>w. (Inl e, w))"

text \<open>Sequencing of two statements: an exception of the first skips the second and
  keeps the world the first one left.\<close>

definition py_then :: "('a, 'p) py \<Rightarrow> ('a \<Rightarrow> ('b, 'p) py) \<Rightarrow> ('b, 'p) py" where
  "py_then m f = (\<lambda>w. case m w of (Inl e, w') \<Rightarrow> (Inl e, w') | (Inr a, w') \<Rightarrow> f a w')"

text \<open>\<^verbatim>\<open>value[0]\<close> on a tuple.\<close>

definition subscript0 :: "int list \<Rightarrow> (int, 'p) py" where
  "subscript0 xs = (case xs of [] \<Rightarrow> py_raise IndexError | x # _ \<Rightarrow> py_return x)"

text \<open>The events a call added to the history.\<close>

definition new_events :: "'p world \<Rightarrow> 'p world \<Rightarrow> event list" where
  "new_events w w' = drop (length (trace w)) (trace w')"

section \<open>The base register contract\<close>

text \<open>Modelled from the spec: the constructor of \<^verbatim>\<open>microharp.register.ReadWriteReg\<close>, which
  the source calls as \<^verbatim>\<open>super().__init__(typ, default)\<close>; it fixes the type and installs the
  default as the cached value (sections 3 and 4.5 to 4.9).\<close>

definition ReadWriteReg_init :: "HarpTypes \<Rightarrow> pyobj \<Rightarrow> register" where
  "ReadWriteReg_init t d = \<lparr>reg_typ = t, reg_value = d\<rparr>"

text \<open>Modelled from the spec: \<^verbatim>\<open>read\<close> of the base register of \<^verbatim>\<open>microharp.register\<close>
  (section 4.1): it fails with TypeMismatch when the requested type is not the register's,
  and otherwise returns the cached value with no side effect.\<close>

definition HarpRegister_read :: "HarpTypes \<Rightarrow> (pyobj, 'p) py" where
  "HarpRegister_read t = (\<lambda>w.
     if t \<noteq> reg_typ (self w) then py_raise TypeMismatch w
     else py_return (reg_value (self w)) w)"

text \<open>Modelled from the spec: \<^verbatim>\<open>write\<close> of \<^verbatim>\<open>microharp.register.ReadWriteReg\<close>
  (section 4.1): TypeMismatch when the type differs, LengthMismatch when the payload's length
  is not \<^verbatim>\<open>len(self)\<close>, and otherwise the payload is stored into the cached value. The first
  argument is the result of \<^verbatim>\<open>len(self)\<close>, which the subclasses define.\<close>

definition ReadWriteReg_write :: "nat \<Rightarrow> HarpTypes \<Rightarrow> int list \<Rightarrow> (unit, 'p) py" where
  "ReadWriteReg_write n t payload = (\<lambda>w.
     if t \<noteq> reg_typ (self w) then py_raise TypeMismatch w
     else if length payload \<noteq> n then py_raise LengthMismatch w
     else py_return ()
            (w\<lparr>self := (self w)\<lparr>reg_value := PTuple payload\<rparr>,
               trace := trace w @ [Stored payload]\<rparr>))"

section \<open>The peripherals\<close>

text \<open>Modelled from the spec: the digital input array of \<^verbatim>\<open>picofunction\<close> (section 6):
  \<^verbatim>\<open>state\<close> is the live bit pattern of the pins.\<close>

record HarpDigitalInputArray =
  state :: int

text \<open>Modelled from the spec: the digital output array of \<^verbatim>\<open>picofunction\<close> (sections 4.3
  and 6): \<^verbatim>\<open>set_state\<close> turns the bits of the mask on, \<^verbatim>\<open>clear_state\<close> turns them off (all
  of them when called with no mask), \<^verbatim>\<open>toggle_state\<close> inverts them; the other bits stay.\<close>

record HarpDigitalOutputArray =
  pins :: int

definition set_state :: "int \<Rightarrow> (unit, HarpDigitalOutputArray) py" where
  "set_state m = (\<lambda>w. py_return ()
     (w\<lparr>periph := (periph w)\<lparr>pins := pins (periph w) OR m\<rparr>,
        trace := trace w @ [Call_set_state m]\<rparr>))"

definition clear_state :: "int option \<Rightarrow> (unit, HarpDigitalOutputArray) py" where
  "clear_state mo = (\<lambda>w. py_return ()
     (w\<lparr>periph := (periph w)\<lparr>pins := (case mo of None \<Rightarrow> 0
                                         | Some m \<Rightarrow> pins (periph w) AND NOT m)\<rparr>,
        trace := trace w @ [Call_clear_state mo]\<rparr>))"

definition toggle_state :: "int \<Rightarrow> (unit, HarpDigitalOutputArray) py" where
  "toggle_state m = (\<lambda>w. py_return ()
     (w\<lparr>periph := (periph w)\<lparr>pins := pins (periph w) XOR m\<rparr>,
        trace := trace w @ [Call_toggle_state m]\<rparr>))"

text \<open>Modelled from the spec: the converter behind \<^verbatim>\<open>AdcRegister\<close> (section 6):
  \<^verbatim>\<open>read_u16()\<close> returns the sample the converter holds at the time of the call.\<close>

record Adc =
  sample :: int

definition read_u16 :: "(int, Adc) py" where
  "read_u16 = (\<lambda>w. py_return (sample (periph w)) (w\<lparr>trace := trace w @ [Call_read_u16]\<rparr>))"

text \<open>Modelled from the spec: the object behind \<^verbatim>\<open>AnalogStreamStateRegister\<close> (section 6,
  event/stream gate): its \<^verbatim>\<open>adc_event\<close> has \<^verbatim>\<open>enable()\<close> and \<^verbatim>\<open>disable()\<close>.\<close>

record AdcEvent =
  active :: bool

record PicoObject =
  adc_event :: AdcEvent

definition adc_event_enable :: "(unit, PicoObject) py" where
  "adc_event_enable = (\<lambda>w. py_return ()
     (w\<lparr>periph := (periph w)\<lparr>adc_event := (adc_event (periph w))\<lparr>active := True\<rparr>\<rparr>,
        trace := trace w @ [Call_enable]\<rparr>))"

definition adc_event_disable :: "(unit, PicoObject) py" where
  "adc_event_disable = (\<lambda>w. py_return ()
     (w\<lparr>periph := (periph w)\<lparr>adc_event := (adc_event (periph w))\<lparr>active := False\<rparr>\<rparr>,
        trace := trace w @ [Call_disable]\<rparr>))"

text \<open>Modelled from the spec: \<^verbatim>\<open>picofunction.HarpPwm\<close> (sections 4.9 and 6): the settable
  attributes \<^verbatim>\<open>frequency\<close> and \<^verbatim>\<open>dutycyle\<close>, the attribute \<^verbatim>\<open>enabled\<close>, \<^verbatim>\<open>start()\<close>, which
  forces the running state, and \<^verbatim>\<open>stop()\<close>, which leaves it. The class constants
  \<^verbatim>\<open>MinFrequency\<close> and \<^verbatim>\<open>MinDutyCycle\<close> are parameters of the register methods below.\<close>

record HarpPwm =
  frequency :: int
  dutycyle :: int
  enabled :: pyobj

definition assign_frequency :: "int \<Rightarrow> (unit, HarpPwm) py" where
  "assign_frequency v = (\<lambda>w. py_return ()
     (w\<lparr>periph := (periph w)\<lparr>frequency := v\<rparr>, trace := trace w @ [Assign_frequency v]\<rparr>))"

definition assign_dutycyle :: "int \<Rightarrow> (unit, HarpPwm) py" where
  "assign_dutycyle v = (\<lambda>w. py_return ()
     (w\<lparr>periph := (periph w)\<lparr>dutycyle := v\<rparr>, trace := trace w @ [Assign_dutycyle v]\<rparr>))"

definition start :: "(unit, HarpPwm) py" where
  "start = (\<lambda>w. py_return ()
     (w\<lparr>periph := (periph w)\<lparr>enabled := PBool True\<rparr>, trace := trace w @ [Call_start]\<rparr>))"

definition stop :: "(unit, HarpPwm) py" where
  "stop = (\<lambda>w. py_return ()
     (w\<lparr>periph := (periph w)\<lparr>enabled := PBool False\<rparr>, trace := trace w @ [Call_stop]\<rparr>))"

section \<open>The register classes of picoregisters.py\<close>

subsection \<open>HarpDigitalInputArrayRegister\<close>

definition HarpDigitalInputArrayRegister_len :: nat where
  "HarpDigitalInputArrayRegister_len = 1"

text \<open>\<^verbatim>\<open>super().read(typ)\<close>, its result dropped, then the live state as a 1-tuple.\<close>

definition HarpDigitalInputArrayRegister_read :: "HarpTypes \<Rightarrow> (pyobj, HarpDigitalInputArray) py" where
  "HarpDigitalInputArrayRegister_read t =
     py_then (HarpRegister_read t) (\<lambda>_ w. py_return (PTuple [state (periph w)]) w)"

subsection \<open>The digital output registers\<close>

definition HarpDigitalOutputArrayRegister_len :: nat where
  "HarpDigitalOutputArrayRegister_len = 1"

definition Set_HarpDigitalOutputArrayRegister_write ::
  "HarpTypes \<Rightarrow> int list \<Rightarrow> (unit, HarpDigitalOutputArray) py" where
  "Set_HarpDigitalOutputArrayRegister_write t msk =
     py_then (ReadWriteReg_write HarpDigitalOutputArrayRegister_len t msk) (\<lambda>_.
     py_then (subscript0 msk) (\<lambda>m. set_state m))"

definition Clear_HarpDigitalOutputArrayRegister_write ::
  "HarpTypes \<Rightarrow> int list \<Rightarrow> (unit, HarpDigitalOutputArray) py" where
  "Clear_HarpDigitalOutputArrayRegister_write t msk =
     py_then (ReadWriteReg_write HarpDigitalOutputArrayRegister_len t msk) (\<lambda>_.
     py_then (subscript0 msk) (\<lambda>m. clear_state (Some m)))"

definition Toggle_HarpDigitalOutputArrayRegister_write ::
  "HarpTypes \<Rightarrow> int list \<Rightarrow> (unit, HarpDigitalOutputArray) py" where
  "Toggle_HarpDigitalOutputArrayRegister_write t msk =
     py_then (ReadWriteReg_write HarpDigitalOutputArrayRegister_len t msk) (\<lambda>_.
     py_then (subscript0 msk) (\<lambda>m. toggle_state m))"

subsection \<open>AdcRegister\<close>

definition AdcRegister_len :: nat where
  "AdcRegister_len = 1"

definition AdcRegister_read :: "HarpTypes \<Rightarrow> (pyobj, Adc) py" where
  "AdcRegister_read t =
     py_then (HarpRegister_read t) (\<lambda>_.
     py_then read_u16 (\<lambda>s. py_return (PTuple [s])))"

subsection \<open>AnalogStreamStateRegister\<close>

text \<open>The class defines no \<^verbatim>\<open>__len__\<close> of its own; the spec gives every register of the
  source one element (section 3).\<close>

definition AnalogStreamStateRegister_len :: nat where
  "AnalogStreamStateRegister_len = 1"

definition AnalogStreamStateRegister_write :: "HarpTypes \<Rightarrow> int list \<Rightarrow> (unit, PicoObject) py" where
  "AnalogStreamStateRegister_write t val =
     py_then (ReadWriteReg_write AnalogStreamStateRegister_len t val) (\<lambda>_.
     py_then (subscript0 val) (\<lambda>v.
       if v > 0 then adc_event_enable else adc_event_disable))"

subsection \<open>PwmFreqRegister\<close>

definition PwmFreqRegister_len :: nat where
  "PwmFreqRegister_len = 1"

definition PwmFreqRegister_validate :: "int \<Rightarrow> int list \<Rightarrow> (int list, HarpPwm) py" where
  "PwmFreqRegister_validate MinFrequency val =
     py_then (subscript0 val) (\<lambda>v.
       if v < MinFrequency then py_raise ValueError else py_return val)"

text \<open>The argument \<^verbatim>\<open>self.validate(value)\<close> is evaluated before \<^verbatim>\<open>super().write\<close> is
  entered.\<close>

definition PwmFreqRegister_write :: "int \<Rightarrow> HarpTypes \<Rightarrow> int list \<Rightarrow> (unit, HarpPwm) py" where
  "PwmFreqRegister_write MinFrequency t val =
     py_then (PwmFreqRegister_validate MinFrequency val) (\<lambda>checked.
     py_then (ReadWriteReg_write PwmFreqRegister_len t checked) (\<lambda>_.
     py_then (subscript0 val) (\<lambda>v. assign_frequency v)))"

subsection \<open>PwmDutycycleRegister\<close>

definition PwmDutycycleRegister_len :: nat where
  "PwmDutycycleRegister_len = 1"

definition PwmDutycycleRegister_validate :: "int \<Rightarrow> int list \<Rightarrow> (int list, HarpPwm) py" where
  "PwmDutycycleRegister_validate MinDutyCycle val =
     py_then (subscript0 val) (\<lambda>v.
       if v > 100 then py_raise ValueError
       else py_then (subscript0 val) (\<lambda>v'.
         if v' < MinDutyCycle then py_raise ValueError else py_return val))"

definition PwmDutycycleRegister_write :: "int \<Rightarrow> HarpTypes \<Rightarrow> int list \<Rightarrow> (unit, HarpPwm) py" where
  "PwmDutycycleRegister_write MinDutyCycle t val =
     py_then (PwmDutycycleRegister_validate MinDutyCycle val) (\<lambda>checked.
     py_then (ReadWriteReg_write PwmDutycycleRegister_len t checked) (\<lambda>_.
     py_then (subscript0 val) (\<lambda>v. assign_dutycyle v)))"

text \<open>\<^verbatim>\<open>__init__\<close>: the base constructor with the default \<^verbatim>\<open>HarpPwm.MinDutyCycle\<close>, the
  binding of the peripheral, then \<^verbatim>\<open>self.write(self.typ, (0,))\<close>. The arguments are the
  constant, the peripheral and the history so far; when the outcome is an exception the
  caller receives no object.\<close>

definition PwmDutycycleRegister_init ::
  "int \<Rightarrow> HarpPwm \<Rightarrow> event list \<Rightarrow> (exn + unit) \<times> HarpPwm world" where
  "PwmDutycycleRegister_init MinDutyCycle harpPWM tr =
     (let w = \<lparr>self = ReadWriteReg_init U8 (PInt MinDutyCycle), periph = harpPWM, trace = tr\<rparr>
      in PwmDutycycleRegister_write MinDutyCycle (reg_typ (self w)) [0] w)"

subsection \<open>PwmStartRegister\<close>

definition PwmStartRegister_len :: nat where
  "PwmStartRegister_len = 1"

text \<open>\<^verbatim>\<open>enabled is False\<close> holds for the boolean \<^verbatim>\<open>False\<close> only.\<close>

definition PwmStartRegister_write :: "HarpTypes \<Rightarrow> int list \<Rightarrow> (unit, HarpPwm) py" where
  "PwmStartRegister_write t val = (\<lambda>w.
     if enabled (periph w) = PBool False
     then py_then (ReadWriteReg_write PwmStartRegister_len t val) (\<lambda>_. start) w
     else py_then (ReadWriteReg_write PwmStartRegister_len t val) (\<lambda>_. start) w)"

subsection \<open>PwmStopRegister\<close>

definition PwmStopRegister_len :: nat where
  "PwmStopRegister_len = 1"

text \<open>\<^verbatim>\<open>enabled is True\<close> holds for the boolean \<^verbatim>\<open>True\<close> only.\<close>

definition PwmStopRegister_write :: "HarpTypes \<Rightarrow> int list \<Rightarrow> (unit, HarpPwm) py" where
  "PwmStopRegister_write t val = (\<lambda>w.
     if enabled (periph w) = PBool True
     then py_then (ReadWriteReg_write PwmStopRegister_len t val) (\<lambda>_. stop) w
     else ReadWriteReg_write PwmStopRegister_len t val w)"

section \<open>Properties stated about the registers\<close>

text \<open>
  What a successful write leaves behind, seen from the history: the history before the call
  is kept, the events of the call begin with the store of the payload and go on with
  actions on the peripheral only, the cached value is the payload, and a read of the
  register directly afterwards returns the payload and changes nothing.
\<close>

definition stored_before_actions :: "int list \<Rightarrow> 'p world \<Rightarrow> 'p world \<Rightarrow> bool" where
  "stored_before_actions payload w w' \<longleftrightarrow>
     take (length (trace w)) (trace w') = trace w \<and>
     (case new_events w w' of
        [] \<Rightarrow> False
      | e # acts \<Rightarrow> e = Stored payload \<and> list_all is_action acts) \<and>
     reg_value (self w') = PTuple payload \<and>
     HarpRegister_read (reg_typ (self w')) w' = (Inr (PTuple payload), w')"

text \<open>
  The write of the PWM start register as section 4.8 of the spec words it: a single
  unconditional store followed by the start of the peripheral.
\<close>

definition PwmStartRegister_write_spec :: "HarpTypes \<Rightarrow> int list \<Rightarrow> (unit, HarpPwm) py" where
  "PwmStartRegister_write_spec t val =
     py_then (ReadWriteReg_write PwmStartRegister_len t val) (\<lambda>_. start)"

section \<open>Store before action\<close>

lemmas py_defs = py_return_def py_raise_def py_then_def subscript0_def

lemma Set_write_stored_first:
  "fst (Set_HarpDigitalOutputArrayRegister_write t p w) = Inr () \<Longrightarrow>
   stored_before_actions p w (snd (Set_HarpDigitalOutputArrayRegister_write t p w))"
  by (auto simp add: Set_HarpDigitalOutputArrayRegister_write_def ReadWriteReg_write_def
      HarpDigitalOutputArrayRegister_len_def set_state_def stored_before_actions_def
      HarpRegister_read_def new_events_def py_defs split: if_splits list.splits)

lemma Clear_write_stored_first:
  "fst (Clear_HarpDigitalOutputArrayRegister_write t p w) = Inr () \<Longrightarrow>
   stored_before_actions p w (snd (Clear_HarpDigitalOutputArrayRegister_write t p w))"
  by (auto simp add: Clear_HarpDigitalOutputArrayRegister_write_def ReadWriteReg_write_def
      HarpDigitalOutputArrayRegister_len_def clear_state_def stored_before_actions_def
      HarpRegister_read_def new_events_def py_defs split: if_splits list.splits)

lemma Toggle_write_stored_first:
  "fst (Toggle_HarpDigitalOutputArrayRegister_write t p w) = Inr () \<Longrightarrow>
   stored_before_actions p w (snd (Toggle_HarpDigitalOutputArrayRegister_write t p w))"
  by (auto simp add: Toggle_HarpDigitalOutputArrayRegister_write_def ReadWriteReg_write_def
      HarpDigitalOutputArrayRegister_len_def toggle_state_def stored_before_actions_def
      HarpRegister_read_def new_events_def py_defs split: if_splits list.splits)

lemma AnalogStream_write_stored_first:
  "fst (AnalogStreamStateRegister_write t p w) = Inr () \<Longrightarrow>
   stored_before_actions p w (snd (AnalogStreamStateRegister_write t p w))"
  by (auto simp add: AnalogStreamStateRegister_write_def ReadWriteReg_write_def
      AnalogStreamStateRegister_len_def adc_event_enable_def adc_event_disable_def
      stored_before_actions_def
      HarpRegister_read_def new_events_def py_defs split: if_splits list.splits)

lemma PwmFreq_write_stored_first:
  "fst (PwmFreqRegister_write m t p w) = Inr () \<Longrightarrow>
   stored_before_actions p w (snd (PwmFreqRegister_write m t p w))"
  by (auto simp add: PwmFreqRegister_write_def PwmFreqRegister_validate_def ReadWriteReg_write_def
      PwmFreqRegister_len_def assign_frequency_def stored_before_actions_def
      HarpRegister_read_def new_events_def py_defs split: if_splits list.splits)

lemma PwmDutycycle_write_stored_first:
  "fst (PwmDutycycleRegister_write m t p w) = Inr () \<Longrightarrow>
   stored_before_actions p w (snd (PwmDutycycleRegister_write m t p w))"
  by (auto simp add: PwmDutycycleRegister_write_def PwmDutycycleRegister_validate_def
      ReadWriteReg_write_def
      PwmDutycycleRegister_len_def assign_dutycyle_def stored_before_actions_def
      HarpRegister_read_def new_events_def py_defs split: if_splits list.splits)

lemma PwmStart_write_stored_first:
  "fst (PwmStartRegister_write t p w) = Inr () \<Longrightarrow>
   stored_before_actions p w (snd (PwmStartRegister_write t p w))"
  by (auto simp add: PwmStartRegister_write_def ReadWriteReg_write_def
      PwmStartRegister_len_def start_def stored_before_actions_def
      HarpRegister_read_def new_events_def py_defs split: if_splits list.splits)

lemma PwmStop_write_stored_first:
  "fst (PwmStopRegister_write t p w) = Inr () \<Longrightarrow>
   stored_before_actions p w (snd (PwmStopRegister_write t p w))"
  by (auto simp add: PwmStopRegister_write_def ReadWriteReg_write_def
      PwmStopRegister_len_def stop_def stored_before_actions_def
      HarpRegister_read_def new_events_def py_defs split: if_splits list.splits)

text \<open>
  Claim C1. For every register class with a \<^verbatim>\<open>write\<close> of its own (set, clear, toggle, analog
  stream state, PWM frequency, PWM duty cycle, PWM start, PWM stop) and every write that
  returns normally, the payload is stored into the cached value by the base write before any
  action on the peripheral, no further store follows, and a read directly after the write
  returns the payload just written.
\<close>

theorem write_stores_before_peripheral_action:
  "(fst (Set_HarpDigitalOutputArrayRegister_write t1 p1 w1) = Inr () \<longrightarrow>
      stored_before_actions p1 w1 (snd (Set_HarpDigitalOutputArrayRegister_write t1 p1 w1))) \<and>
   (fst (Clear_HarpDigitalOutputArrayRegister_write t2 p2 w2) = Inr () \<longrightarrow>
      stored_before_actions p2 w2 (snd (Clear_HarpDigitalOutputArrayRegister_write t2 p2 w2))) \<and>
   (fst (Toggle_HarpDigitalOutputArrayRegister_write t3 p3 w3) = Inr () \<longrightarrow>
      stored_before_actions p3 w3 (snd (Toggle_HarpDigitalOutputArrayRegister_write t3 p3 w3))) \<and>
   (fst (AnalogStreamStateRegister_write t4 p4 w4) = Inr () \<longrightarrow>
      stored_before_actions p4 w4 (snd (AnalogStreamStateRegister_write t4 p4 w4))) \<and>
   (fst (PwmFreqRegister_write MinFrequency t5 p5 w5) = Inr () \<longrightarrow>
      stored_before_actions p5 w5 (snd (PwmFreqRegister_write MinFrequency t5 p5 w5))) \<and>
   (fst (PwmDutycycleRegister_write MinDutyCycle t6 p6 w6) = Inr () \<longrightarrow>
      stored_before_actions p6 w6 (snd (PwmDutycycleRegister_write MinDutyCycle t6 p6 w6))) \<and>
   (fst (PwmStartRegister_write t7 p7 w7) = Inr () \<longrightarrow>
      stored_before_actions p7 w7 (snd (PwmStartRegister_write t7 p7 w7))) \<and>
   (fst (PwmStopRegister_write t8 p8 w8) = Inr () \<longrightarrow>
      stored_before_actions p8 w8 (snd (PwmStopRegister_write t8 p8 w8)))"
  by (intro conjI impI Set_write_stored_first Clear_write_stored_first
      Toggle_write_stored_first AnalogStream_write_stored_first PwmFreq_write_stored_first
      PwmDutycycle_write_stored_first PwmStart_write_stored_first PwmStop_write_stored_first)

theorem write_stores_before_peripheral_action_witness:
  "fst (Set_HarpDigitalOutputArrayRegister_write U8 [5]
          \<lparr>self = \<lparr>reg_typ = U8, reg_value = PInt 0\<rparr>, periph = \<lparr>pins = 10\<rparr>, trace = []\<rparr>) = Inr () \<and>
   stored_before_actions [5]
     \<lparr>self = \<lparr>reg_typ = U8, reg_value = PInt 0\<rparr>, periph = \<lparr>pins = 10\<rparr>, trace = []\<rparr>
     (snd (Set_HarpDigitalOutputArrayRegister_write U8 [5]
          \<lparr>self = \<lparr>reg_typ = U8, reg_value = PInt 0\<rparr>, periph = \<lparr>pins = 10\<rparr>, trace = []\<rparr>)) \<and>
   fst (Clear_HarpDigitalOutputArrayRegister_write U8 [5]
          \<lparr>self = \<lparr>reg_typ = U8, reg_value = PInt 0\<rparr>, periph = \<lparr>pins = 10\<rparr>, trace = []\<rparr>) = Inr () \<and>
   stored_before_actions [5]
     \<lparr>self = \<lparr>reg_typ = U8, reg_value = PInt 0\<rparr>, periph = \<lparr>pins = 10\<rparr>, trace = []\<rparr>
     (snd (Clear_HarpDigitalOutputArrayRegister_write U8 [5]
          \<lparr>self = \<lparr>reg_typ = U8, reg_value = PInt 0\<rparr>, periph = \<lparr>pins = 10\<rparr>, trace = []\<rparr>)) \<and>
   fst (Toggle_HarpDigitalOutputArrayRegister_write U8 [5]
          \<lparr>self = \<lparr>reg_typ = U8, reg_value = PInt 0\<rparr>, periph = \<lparr>pins = 10\<rparr>, trace = []\<rparr>) = Inr () \<and>
   stored_before_actions [5]
     \<lparr>self = \<lparr>reg_typ = U8, reg_value = PInt 0\<rparr>, periph = \<lparr>pins = 10\<rparr>, trace = []\<rparr>
     (snd (Toggle_HarpDigitalOutputArrayRegister_write U8 [5]
          \<lparr>self = \<lparr>reg_typ = U8, reg_value = PInt 0\<rparr>, periph = \<lparr>pins = 10\<rparr>, trace = []\<rparr>)) \<and>
   fst (AnalogStreamStateRegister_write U8 [1]
          \<lparr>self = \<lparr>reg_typ = U8, reg_value = PInt 0\<rparr>,
           periph = \<lparr>adc_event = \<lparr>active = False\<rparr>\<rparr>, trace = []\<rparr>) = Inr () \<and>
   stored_before_actions [1]
     \<lparr>self = \<lparr>reg_typ = U8, reg_value = PInt 0\<rparr>,
      periph = \<lparr>adc_event = \<lparr>active = False\<rparr>\<rparr>, trace = []\<rparr>
     (snd (AnalogStreamStateRegister_write U8 [1]
          \<lparr>self = \<lparr>reg_typ = U8, reg_value = PInt 0\<rparr>,
           periph = \<lparr>adc_event = \<lparr>active = False\<rparr>\<rparr>, trace = []\<rparr>)) \<and>
   fst (PwmFreqRegister_write 10 U16 [440]
          \<lparr>self = \<lparr>reg_typ = U16, reg_value = PInt 10\<rparr>,
           periph = \<lparr>frequency = 50, dutycyle = 0, enabled = PBool False\<rparr>, trace = []\<rparr>) = Inr () \<and>
   stored_before_actions [440]
     \<lparr>self = \<lparr>reg_typ = U16, reg_value = PInt 10\<rparr>,
      periph = \<lparr>frequency = 50, dutycyle = 0, enabled = PBool False\<rparr>, trace = []\<rparr>
     (snd (PwmFreqRegister_write 10 U16 [440]
          \<lparr>self = \<lparr>reg_typ = U16, reg_value = PInt 10\<rparr>,
           periph = \<lparr>frequency = 50, dutycyle = 0, enabled = PBool False\<rparr>, trace = []\<rparr>)) \<and>
   fst (PwmDutycycleRegister_write 0 U8 [25]
          \<lparr>self = \<lparr>reg_typ = U8, reg_value = PTuple [0]\<rparr>,
           periph = \<lparr>frequency = 50, dutycyle = 0, enabled = PBool False\<rparr>, trace = []\<rparr>) = Inr () \<and>
   stored_before_actions [25]
     \<lparr>self = \<lparr>reg_typ = U8, reg_value = PTuple [0]\<rparr>,
      periph = \<lparr>frequency = 50, dutycyle = 0, enabled = PBool False\<rparr>, trace = []\<rparr>
     (snd (PwmDutycycleRegister_write 0 U8 [25]
          \<lparr>self = \<lparr>reg_typ = U8, reg_value = PTuple [0]\<rparr>,
           periph = \<lparr>frequency = 50, dutycyle = 0, enabled = PBool False\<rparr>, trace = []\<rparr>)) \<and>
   fst (PwmStartRegister_write U8 [1]
          \<lparr>self = \<lparr>reg_typ = U8, reg_value = PInt 0\<rparr>,
           periph = \<lparr>frequency = 50, dutycyle = 0, enabled = PBool False\<rparr>, trace = []\<rparr>) = Inr () \<and>
   stored_before_actions [1]
     \<lparr>self = \<lparr>reg_typ = U8, reg_value = PInt 0\<rparr>,
      periph = \<lparr>frequency = 50, dutycyle = 0, enabled = PBool False\<rparr>, trace = []\<rparr>
     (snd (PwmStartRegister_write U8 [1]
          \<lparr>self = \<lparr>reg_typ = U8, reg_value = PInt 0\<rparr>,
           periph = \<lparr>frequency = 50, dutycyle = 0, enabled = PBool False\<rparr>, trace = []\<rparr>)) \<and>
   fst (PwmStopRegister_write U8 [1]
          \<lparr>self = \<lparr>reg_typ = U8, reg_value = PInt 0\<rparr>,
           periph = \<lparr>frequency = 50, dutycyle = 0, enabled = PBool True\<rparr>, trace = []\<rparr>) = Inr () \<and>
   stored_before_actions [1]
     \<lparr>self = \<lparr>reg_typ = U8, reg_value = PInt 0\<rparr>,
      periph = \<lparr>frequency = 50, dutycyle = 0, enabled = PBool True\<rparr>, trace = []\<rparr>
     (snd (PwmStopRegister_write U8 [1]
          \<lparr>self = \<lparr>reg_typ = U8, reg_value = PInt 0\<rparr>,
           periph = \<lparr>frequency = 50, dutycyle = 0, enabled = PBool True\<rparr>, trace = []\<rparr>))"
proof -
  let ?d = "\<lparr>self = \<lparr>reg_typ = U8, reg_value = PInt 0\<rparr>, periph = \<lparr>pins = 10\<rparr>, trace = []\<rparr>"
  let ?a = "\<lparr>self = \<lparr>reg_typ = U8, reg_value = PInt 0\<rparr>,
             periph = \<lparr>adc_event = \<lparr>active = False\<rparr>\<rparr>, trace = []\<rparr>"
  let ?f = "\<lparr>self = \<lparr>reg_typ = U16, reg_value = PInt 10\<rparr>,
             periph = \<lparr>frequency = 50, dutycyle = 0, enabled = PBool False\<rparr>, trace = []\<rparr>"
  let ?c = "\<lparr>self = \<lparr>reg_typ = U8, reg_value = PTuple [0]\<rparr>,
             periph = \<lparr>frequency = 50, dutycyle = 0, enabled = PBool False\<rparr>, trace = []\<rparr>"
  let ?s = "\<lparr>self = \<lparr>reg_typ = U8, reg_value = PInt 0\<rparr>,
             periph = \<lparr>frequency = 50, dutycyle = 0, enabled = PBool False\<rparr>, trace = []\<rparr>"
  let ?e = "\<lparr>self = \<lparr>reg_typ = U8, reg_value = PInt 0\<rparr>,
             periph = \<lparr>frequency = 50, dutycyle = 0, enabled = PBool True\<rparr>, trace = []\<rparr>"
  have ok:
    "fst (Set_HarpDigitalOutputArrayRegister_write U8 [5] ?d) = Inr ()"
    "fst (Clear_HarpDigitalOutputArrayRegister_write U8 [5] ?d) = Inr ()"
    "fst (Toggle_HarpDigitalOutputArrayRegister_write U8 [5] ?d) = Inr ()"
    "fst (AnalogStreamStateRegister_write U8 [1] ?a) = Inr ()"
    "fst (PwmFreqRegister_write 10 U16 [440] ?f) = Inr ()"
    "fst (PwmDutycycleRegister_write 0 U8 [25] ?c) = Inr ()"
    "fst (PwmStartRegister_write U8 [1] ?s) = Inr ()"
    "fst (PwmStopRegister_write U8 [1] ?e) = Inr ()"
    by (simp_all add: Set_HarpDigitalOutputArrayRegister_write_def
        Clear_HarpDigitalOutputArrayRegister_write_def
        Toggle_HarpDigitalOutputArrayRegister_write_def AnalogStreamStateRegister_write_def
        PwmFreqRegister_write_def PwmFreqRegister_validate_def PwmDutycycleRegister_write_def
        PwmDutycycleRegister_validate_def PwmStartRegister_write_def PwmStopRegister_write_def
        ReadWriteReg_write_def HarpDigitalOutputArrayRegister_len_def
        AnalogStreamStateRegister_len_def PwmFreqRegister_len_def PwmDutycycleRegister_len_def
        PwmStartRegister_len_def PwmStopRegister_len_def set_state_def clear_state_def
        toggle_state_def adc_event_enable_def assign_frequency_def assign_dutycyle_def
        start_def stop_def py_defs)
  show ?thesis
    using ok write_stores_before_peripheral_action
      [of U8 "[5]" ?d U8 "[5]" ?d U8 "[5]" ?d U8 "[1]" ?a 10 U16 "[440]" ?f 0 U8 "[25]" ?c
          U8 "[1]" ?s U8 "[1]" ?e]
    by simp
qed

section \<open>Validation of the PWM registers\<close>

text \<open>
  Claim C2. For every payload \<^verbatim>\<open>[v]\<close>, a write to the PWM frequency register with
  \<^verbatim>\<open>v < MinFrequency\<close> raises ValueError and leaves the whole world as it was: cached value,
  peripheral frequency and history. A write of \<^verbatim>\<open>[MinFrequency]\<close> with the register's type
  returns normally, stores the payload and sets the peripheral's frequency to it.
\<close>

theorem PwmFreqRegister_write_validated:
  "(v < MinFrequency \<longrightarrow> PwmFreqRegister_write MinFrequency t [v] w = (Inl ValueError, w)) \<and>
   (t = reg_typ (self w) \<longrightarrow>
      PwmFreqRegister_write MinFrequency t [MinFrequency] w =
        (Inr (), w\<lparr>self := (self w)\<lparr>reg_value := PTuple [MinFrequency]\<rparr>,
                   periph := (periph w)\<lparr>frequency := MinFrequency\<rparr>,
                   trace := trace w @ [Stored [MinFrequency], Assign_frequency MinFrequency]\<rparr>))"
  by (simp add: PwmFreqRegister_write_def PwmFreqRegister_validate_def ReadWriteReg_write_def
      PwmFreqRegister_len_def assign_frequency_def py_defs)

theorem PwmFreqRegister_write_validated_witness:
  "(3::int) < 10 \<and>
   PwmFreqRegister_write 10 U16 [3]
     \<lparr>self = \<lparr>reg_typ = U16, reg_value = PInt 10\<rparr>,
      periph = \<lparr>frequency = 50, dutycyle = 0, enabled = PBool False\<rparr>, trace = []\<rparr>
   = (Inl ValueError,
     \<lparr>self = \<lparr>reg_typ = U16, reg_value = PInt 10\<rparr>,
      periph = \<lparr>frequency = 50, dutycyle = 0, enabled = PBool False\<rparr>, trace = []\<rparr>) \<and>
   PwmFreqRegister_write 10 U16 [10]
     \<lparr>self = \<lparr>reg_typ = U16, reg_value = PInt 10\<rparr>,
      periph = \<lparr>frequency = 50, dutycyle = 0, enabled = PBool False\<rparr>, trace = []\<rparr>
   = (Inr (),
     \<lparr>self = \<lparr>reg_typ = U16, reg_value = PTuple [10]\<rparr>,
      periph = \<lparr>frequency = 10, dutycyle = 0, enabled = PBool False\<rparr>,
      trace = [Stored [10], Assign_frequency 10]\<rparr>)"
  using PwmFreqRegister_write_validated [of 3 10 U16
     "\<lparr>self = \<lparr>reg_typ = U16, reg_value = PInt 10\<rparr>,
      periph = \<lparr>frequency = 50, dutycyle = 0, enabled = PBool False\<rparr>, trace = []\<rparr>"]
  by simp

text \<open>
  Claim C3. For every payload \<^verbatim>\<open>[v]\<close>, a write to the PWM duty-cycle register with
  \<^verbatim>\<open>v > 100\<close> or \<^verbatim>\<open>v < MinDutyCycle\<close> raises ValueError and leaves the cached value, the
  peripheral and the history as they were. When \<^verbatim>\<open>MinDutyCycle \<le> 0\<close>, the boundary writes
  \<^verbatim>\<open>[0]\<close> and \<^verbatim>\<open>[100]\<close> with the register's type both return normally, store the payload
  and set the peripheral's duty cycle.
\<close>

theorem PwmDutycycleRegister_write_validated:
  "((v > 100 \<or> v < MinDutyCycle) \<longrightarrow>
      PwmDutycycleRegister_write MinDutyCycle t [v] w = (Inl ValueError, w)) \<and>
   (MinDutyCycle \<le> 0 \<and> t = reg_typ (self w) \<longrightarrow>
      PwmDutycycleRegister_write MinDutyCycle t [0] w =
        (Inr (), w\<lparr>self := (self w)\<lparr>reg_value := PTuple [0]\<rparr>,
                   periph := (periph w)\<lparr>dutycyle := 0\<rparr>,
                   trace := trace w @ [Stored [0], Assign_dutycyle 0]\<rparr>) \<and>
      PwmDutycycleRegister_write MinDutyCycle t [100] w =
        (Inr (), w\<lparr>self := (self w)\<lparr>reg_value := PTuple [100]\<rparr>,
                   periph := (periph w)\<lparr>dutycyle := 100\<rparr>,
                   trace := trace w @ [Stored [100], Assign_dutycyle 100]\<rparr>))"
  by (simp add: PwmDutycycleRegister_write_def PwmDutycycleRegister_validate_def
      ReadWriteReg_write_def PwmDutycycleRegister_len_def assign_dutycyle_def py_defs)

theorem PwmDutycycleRegister_write_validated_witness:
  "((101::int) > 100 \<or> (101::int) < 0) \<and> (0::int) \<le> 0 \<and>
   PwmDutycycleRegister_write 0 U8 [101]
     \<lparr>self = \<lparr>reg_typ = U8, reg_value = PTuple [0]\<rparr>,
      periph = \<lparr>frequency = 50, dutycyle = 0, enabled = PBool False\<rparr>, trace = []\<rparr>
   = (Inl ValueError,
     \<lparr>self = \<lparr>reg_typ = U8, reg_value = PTuple [0]\<rparr>,
      periph = \<lparr>frequency = 50, dutycyle = 0, enabled = PBool False\<rparr>, trace = []\<rparr>) \<and>
   PwmDutycycleRegister_write 0 U8 [0]
     \<lparr>self = \<lparr>reg_typ = U8, reg_value = PTuple [0]\<rparr>,
      periph = \<lparr>frequency = 50, dutycyle = 0, enabled = PBool False\<rparr>, trace = []\<rparr>
   = (Inr (),
     \<lparr>self = \<lparr>reg_typ = U8, reg_value = PTuple [0]\<rparr>,
      periph = \<lparr>frequency = 50, dutycyle = 0, enabled = PBool False\<rparr>,
      trace = [Stored [0], Assign_dutycyle 0]\<rparr>) \<and>
   PwmDutycycleRegister_write 0 U8 [100]
     \<lparr>self = \<lparr>reg_typ = U8, reg_value = PTuple [0]\<rparr>,
      periph = \<lparr>frequency = 50, dutycyle = 0, enabled = PBool False\<rparr>, trace = []\<rparr>
   = (Inr (),
     \<lparr>self = \<lparr>reg_typ = U8, reg_value = PTuple [100]\<rparr>,
      periph = \<lparr>frequency = 50, dutycyle = 100, enabled = PBool False\<rparr>,
      trace = [Stored [100], Assign_dutycyle 100]\<rparr>)"
  using PwmDutycycleRegister_write_validated [of 101 0 U8
     "\<lparr>self = \<lparr>reg_typ = U8, reg_value = PTuple [0]\<rparr>,
      periph = \<lparr>frequency = 50, dutycyle = 0, enabled = PBool False\<rparr>, trace = []\<rparr>"]
  by simp

section \<open>Construction of the PWM duty-cycle register\<close>

text \<open>
  Claim C4. The constructor of the PWM duty-cycle register installs \<^verbatim>\<open>MinDutyCycle\<close> as the
  default and then performs the write of \<^verbatim>\<open>(0,)\<close>; whenever construction completes, the
  register holds \<^verbatim>\<open>(0,)\<close> and a read before any further write returns it: 0 per cent.
\<close>

theorem PwmDutycycleRegister_init_reads_zero:
  "PwmDutycycleRegister_init MinDutyCycle harpPWM tr =
     PwmDutycycleRegister_write MinDutyCycle U8 [0]
       \<lparr>self = \<lparr>reg_typ = U8, reg_value = PInt MinDutyCycle\<rparr>, periph = harpPWM, trace = tr\<rparr> \<and>
   (fst (PwmDutycycleRegister_init MinDutyCycle harpPWM tr) = Inr () \<longrightarrow>
      self (snd (PwmDutycycleRegister_init MinDutyCycle harpPWM tr)) =
        \<lparr>reg_typ = U8, reg_value = PTuple [0]\<rparr> \<and>
      fst (HarpRegister_read U8 (snd (PwmDutycycleRegister_init MinDutyCycle harpPWM tr))) =
        Inr (PTuple [0]))"
  by (simp add: PwmDutycycleRegister_init_def ReadWriteReg_init_def
      PwmDutycycleRegister_write_def PwmDutycycleRegister_validate_def
      ReadWriteReg_write_def PwmDutycycleRegister_len_def assign_dutycyle_def
      HarpRegister_read_def py_defs Let_def)

theorem PwmDutycycleRegister_init_reads_zero_witness:
  "fst (PwmDutycycleRegister_init (-5) \<lparr>frequency = 50, dutycyle = 70, enabled = PBool False\<rparr> [])
     = Inr () \<and>
   self (snd (PwmDutycycleRegister_init (-5)
                \<lparr>frequency = 50, dutycyle = 70, enabled = PBool False\<rparr> [])) =
        \<lparr>reg_typ = U8, reg_value = PTuple [0]\<rparr> \<and>
   fst (HarpRegister_read U8 (snd (PwmDutycycleRegister_init (-5)
          \<lparr>frequency = 50, dutycyle = 70, enabled = PBool False\<rparr> []))) = Inr (PTuple [0])"
proof -
  have ok: "fst (PwmDutycycleRegister_init (-5)
              \<lparr>frequency = 50, dutycyle = 70, enabled = PBool False\<rparr> []) = Inr ()"
    by (simp add: PwmDutycycleRegister_init_def ReadWriteReg_init_def
      PwmDutycycleRegister_write_def PwmDutycycleRegister_validate_def
      ReadWriteReg_write_def PwmDutycycleRegister_len_def assign_dutycyle_def py_defs Let_def)
  from PwmDutycycleRegister_init_reads_zero
      [of "-5" "\<lparr>frequency = 50, dutycyle = 70, enabled = PBool False\<rparr>" "[]"]
  have "fst (PwmDutycycleRegister_init (-5)
              \<lparr>frequency = 50, dutycyle = 70, enabled = PBool False\<rparr> []) = Inr () \<longrightarrow>
      self (snd (PwmDutycycleRegister_init (-5)
                \<lparr>frequency = 50, dutycyle = 70, enabled = PBool False\<rparr> [])) =
        \<lparr>reg_typ = U8, reg_value = PTuple [0]\<rparr> \<and>
      fst (HarpRegister_read U8 (snd (PwmDutycycleRegister_init (-5)
          \<lparr>frequency = 50, dutycyle = 70, enabled = PBool False\<rparr> []))) = Inr (PTuple [0])"
    by (rule conjunct2)
  with ok show ?thesis by blast
qed

text \<open>
  Claim C10. Construction of the PWM duty-cycle register is the validating write of \<^verbatim>\<open>(0,)\<close>
  on the freshly initialised object. With \<^verbatim>\<open>MinDutyCycle > 0\<close> it raises ValueError, the
  peripheral and the history untouched, and no register reaches the caller; otherwise it
  returns normally and has already set the peripheral's \<^verbatim>\<open>dutycyle\<close> to 0.
\<close>

theorem PwmDutycycleRegister_init_outcome:
  "PwmDutycycleRegister_init MinDutyCycle harpPWM tr =
     PwmDutycycleRegister_write MinDutyCycle U8 [0]
       \<lparr>self = \<lparr>reg_typ = U8, reg_value = PInt MinDutyCycle\<rparr>, periph = harpPWM, trace = tr\<rparr> \<and>
   PwmDutycycleRegister_init MinDutyCycle harpPWM tr =
     (if MinDutyCycle > 0
      then (Inl ValueError,
            \<lparr>self = \<lparr>reg_typ = U8, reg_value = PInt MinDutyCycle\<rparr>,
             periph = harpPWM, trace = tr\<rparr>)
      else (Inr (),
            \<lparr>self = \<lparr>reg_typ = U8, reg_value = PTuple [0]\<rparr>,
             periph = harpPWM\<lparr>dutycyle := 0\<rparr>,
             trace = tr @ [Stored [0], Assign_dutycyle 0]\<rparr>))"
  by (simp add: PwmDutycycleRegister_init_def ReadWriteReg_init_def
      PwmDutycycleRegister_write_def PwmDutycycleRegister_validate_def
      ReadWriteReg_write_def PwmDutycycleRegister_len_def assign_dutycyle_def
      py_defs Let_def)

theorem PwmDutycycleRegister_init_outcome_witness:
  "PwmDutycycleRegister_init 10 \<lparr>frequency = 50, dutycyle = 70, enabled = PBool False\<rparr> [] =
     (Inl ValueError,
      \<lparr>self = \<lparr>reg_typ = U8, reg_value = PInt 10\<rparr>,
       periph = \<lparr>frequency = 50, dutycyle = 70, enabled = PBool False\<rparr>, trace = []\<rparr>) \<and>
   PwmDutycycleRegister_init 0 \<lparr>frequency = 50, dutycyle = 70, enabled = PBool False\<rparr> [] =
     (Inr (),
      \<lparr>self = \<lparr>reg_typ = U8, reg_value = PTuple [0]\<rparr>,
       periph = \<lparr>frequency = 50, dutycyle = 0, enabled = PBool False\<rparr>,
       trace = [Stored [0], Assign_dutycyle 0]\<rparr>)"
  using PwmDutycycleRegister_init_outcome
      [of 10 "\<lparr>frequency = 50, dutycyle = 70, enabled = PBool False\<rparr>" "[]", THEN conjunct2]
    PwmDutycycleRegister_init_outcome
      [of 0 "\<lparr>frequency = 50, dutycyle = 70, enabled = PBool False\<rparr>" "[]", THEN conjunct2]
  by simp

section \<open>Start and stop of the PWM\<close>

text \<open>
  Claim C5. The write of the PWM start register does not depend on \<^verbatim>\<open>enabled\<close>: in every
  world it equals the unconditional store followed by \<^verbatim>\<open>start()\<close>, and a write with the
  register's type and one element stores the payload and then calls \<^verbatim>\<open>start()\<close> exactly
  once.
\<close>

theorem PwmStartRegister_write_unconditional:
  "PwmStartRegister_write t val w = PwmStartRegister_write_spec t val w \<and>
   (t = reg_typ (self w) \<and> length val = 1 \<longrightarrow>
      PwmStartRegister_write t val w =
        (Inr (), w\<lparr>self := (self w)\<lparr>reg_value := PTuple val\<rparr>,
                   periph := (periph w)\<lparr>enabled := PBool True\<rparr>,
                   trace := trace w @ [Stored val, Call_start]\<rparr>) \<and>
      new_events w (snd (PwmStartRegister_write t val w)) = [Stored val, Call_start] \<and>
      count_list (new_events w (snd (PwmStartRegister_write t val w))) Call_start = 1)"
  by (simp add: PwmStartRegister_write_def PwmStartRegister_write_spec_def
      ReadWriteReg_write_def PwmStartRegister_len_def start_def new_events_def py_defs)

theorem PwmStartRegister_write_unconditional_witness:
  "new_events
     \<lparr>self = \<lparr>reg_typ = U8, reg_value = PInt 0\<rparr>,
      periph = \<lparr>frequency = 50, dutycyle = 0, enabled = PBool False\<rparr>, trace = []\<rparr>
     (snd (PwmStartRegister_write U8 [1]
       \<lparr>self = \<lparr>reg_typ = U8, reg_value = PInt 0\<rparr>,
        periph = \<lparr>frequency = 50, dutycyle = 0, enabled = PBool False\<rparr>, trace = []\<rparr>))
     = [Stored [1], Call_start] \<and>
   new_events
     \<lparr>self = \<lparr>reg_typ = U8, reg_value = PTuple [1]\<rparr>,
      periph = \<lparr>frequency = 50, dutycyle = 0, enabled = PBool True\<rparr>,
      trace = [Stored [1], Call_start]\<rparr>
     (snd (PwmStartRegister_write U8 [1]
       \<lparr>self = \<lparr>reg_typ = U8, reg_value = PTuple [1]\<rparr>,
        periph = \<lparr>frequency = 50, dutycyle = 0, enabled = PBool True\<rparr>,
        trace = [Stored [1], Call_start]\<rparr>))
     = [Stored [1], Call_start]"
  using PwmStartRegister_write_unconditional [of U8 "[1]"
      "\<lparr>self = \<lparr>reg_typ = U8, reg_value = PInt 0\<rparr>,
        periph = \<lparr>frequency = 50, dutycyle = 0, enabled = PBool False\<rparr>, trace = []\<rparr>",
      THEN conjunct2]
    PwmStartRegister_write_unconditional [of U8 "[1]"
      "\<lparr>self = \<lparr>reg_typ = U8, reg_value = PTuple [1]\<rparr>,
        periph = \<lparr>frequency = 50, dutycyle = 0, enabled = PBool True\<rparr>,
        trace = [Stored [1], Call_start]\<rparr>",
      THEN conjunct2]
  by (simp add: new_events_def)

text \<open>
  Claim C6. A write to the PWM stop register with the register's type and one element, while
  the peripheral reports the boolean \<^verbatim>\<open>enabled = b\<close>: for \<^verbatim>\<open>b = False\<close> the payload is
  stored and \<^verbatim>\<open>stop()\<close> is not called; for \<^verbatim>\<open>b = True\<close> the payload is stored and
  \<^verbatim>\<open>stop()\<close> is called exactly once.
\<close>

theorem PwmStopRegister_write_gated:
  "t = reg_typ (self w) \<Longrightarrow> length val = 1 \<Longrightarrow> enabled (periph w) = PBool b \<Longrightarrow>
   PwmStopRegister_write t val w =
     (Inr (),
      if b then w\<lparr>self := (self w)\<lparr>reg_value := PTuple val\<rparr>,
                  periph := (periph w)\<lparr>enabled := PBool False\<rparr>,
                  trace := trace w @ [Stored val, Call_stop]\<rparr>
      else w\<lparr>self := (self w)\<lparr>reg_value := PTuple val\<rparr>,
             trace := trace w @ [Stored val]\<rparr>) \<and>
   count_list (new_events w (snd (PwmStopRegister_write t val w))) Call_stop =
     (if b then 1 else 0)"
  by (simp add: PwmStopRegister_write_def ReadWriteReg_write_def PwmStopRegister_len_def
      stop_def new_events_def py_defs)

theorem PwmStopRegister_write_gated_witness:
  "PwmStopRegister_write U8 [1]
     \<lparr>self = \<lparr>reg_typ = U8, reg_value = PInt 0\<rparr>,
      periph = \<lparr>frequency = 50, dutycyle = 0, enabled = PBool False\<rparr>, trace = []\<rparr>
   = (Inr (),
     \<lparr>self = \<lparr>reg_typ = U8, reg_value = PTuple [1]\<rparr>,
      periph = \<lparr>frequency = 50, dutycyle = 0, enabled = PBool False\<rparr>,
      trace = [Stored [1]]\<rparr>) \<and>
   PwmStopRegister_write U8 [1]
     \<lparr>self = \<lparr>reg_typ = U8, reg_value = PInt 0\<rparr>,
      periph = \<lparr>frequency = 50, dutycyle = 0, enabled = PBool True\<rparr>, trace = []\<rparr>
   = (Inr (),
     \<lparr>self = \<lparr>reg_typ = U8, reg_value = PTuple [1]\<rparr>,
      periph = \<lparr>frequency = 50, dutycyle = 0, enabled = PBool False\<rparr>,
      trace = [Stored [1], Call_stop]\<rparr>)"
  using PwmStopRegister_write_gated [of U8
      "\<lparr>self = \<lparr>reg_typ = U8, reg_value = PInt 0\<rparr>,
        periph = \<lparr>frequency = 50, dutycyle = 0, enabled = PBool False\<rparr>, trace = []\<rparr>"
      "[1]" False]
    PwmStopRegister_write_gated [of U8
      "\<lparr>self = \<lparr>reg_typ = U8, reg_value = PInt 0\<rparr>,
        periph = \<lparr>frequency = 50, dutycyle = 0, enabled = PBool True\<rparr>, trace = []\<rparr>"
      "[1]" True]
  by simp

text \<open>
  Claim C9. The PWM stop register tests \<^verbatim>\<open>enabled is True\<close>: whenever \<^verbatim>\<open>enabled\<close> is not the
  boolean \<^verbatim>\<open>True\<close> itself, in particular for a truthy value that is not a boolean such as
  the integer 1, the write is the plain store of the base class, the peripheral is left as
  it was and \<^verbatim>\<open>stop()\<close> is not called.
\<close>

theorem PwmStopRegister_write_identity_test:
  "enabled (periph w) \<noteq> PBool True \<Longrightarrow>
   PwmStopRegister_write t val w = ReadWriteReg_write PwmStopRegister_len t val w \<and>
   periph (snd (PwmStopRegister_write t val w)) = periph w \<and>
   count_list (new_events w (snd (PwmStopRegister_write t val w))) Call_stop = 0"
  by (simp add: PwmStopRegister_write_def ReadWriteReg_write_def PwmStopRegister_len_def
      new_events_def py_defs)

theorem PwmStopRegister_write_identity_test_witness:
  "truthy (PInt 1) \<and> PInt 1 \<noteq> PBool True \<and>
   PwmStopRegister_write U8 [1]
     \<lparr>self = \<lparr>reg_typ = U8, reg_value = PInt 0\<rparr>,
      periph = \<lparr>frequency = 50, dutycyle = 0, enabled = PInt 1\<rparr>, trace = []\<rparr>
   = (Inr (),
     \<lparr>self = \<lparr>reg_typ = U8, reg_value = PTuple [1]\<rparr>,
      periph = \<lparr>frequency = 50, dutycyle = 0, enabled = PInt 1\<rparr>, trace = [Stored [1]]\<rparr>)"
  using PwmStopRegister_write_identity_test [of
      "\<lparr>self = \<lparr>reg_typ = U8, reg_value = PInt 0\<rparr>,
        periph = \<lparr>frequency = 50, dutycyle = 0, enabled = PInt 1\<rparr>, trace = []\<rparr>" U8 "[1]"]
  by (simp add: ReadWriteReg_write_def PwmStopRegister_len_def py_defs)

section \<open>The analog stream gate\<close>

text \<open>
  Claim C7. For every payload \<^verbatim>\<open>[v]\<close> written with the register's type, the analog stream
  state register stores the payload and then calls \<^verbatim>\<open>enable()\<close> when \<^verbatim>\<open>v > 0\<close> and
  \<^verbatim>\<open>disable()\<close> otherwise: \<^verbatim>\<open>[0]\<close> disables, \<^verbatim>\<open>[1]\<close> and \<^verbatim>\<open>[200]\<close> both enable.
\<close>

theorem AnalogStreamStateRegister_write_threshold:
  "t = reg_typ (self w) \<Longrightarrow>
   AnalogStreamStateRegister_write t [v] w =
     (Inr (), w\<lparr>self := (self w)\<lparr>reg_value := PTuple [v]\<rparr>,
                periph := (periph w)\<lparr>adc_event := (adc_event (periph w))\<lparr>active := (v > 0)\<rparr>\<rparr>,
                trace := trace w @ [Stored [v], if v > 0 then Call_enable else Call_disable]\<rparr>) \<and>
   new_events w (snd (AnalogStreamStateRegister_write t [0] w)) = [Stored [0], Call_disable] \<and>
   new_events w (snd (AnalogStreamStateRegister_write t [1] w)) = [Stored [1], Call_enable] \<and>
   new_events w (snd (AnalogStreamStateRegister_write t [200] w)) = [Stored [200], Call_enable]"
  by (simp add: AnalogStreamStateRegister_write_def ReadWriteReg_write_def
      AnalogStreamStateRegister_len_def adc_event_enable_def adc_event_disable_def
      new_events_def py_defs)

theorem AnalogStreamStateRegister_write_threshold_witness:
  "AnalogStreamStateRegister_write U8 [200]
     \<lparr>self = \<lparr>reg_typ = U8, reg_value = PInt 0\<rparr>,
      periph = \<lparr>adc_event = \<lparr>active = False\<rparr>\<rparr>, trace = []\<rparr>
   = (Inr (),
     \<lparr>self = \<lparr>reg_typ = U8, reg_value = PTuple [200]\<rparr>,
      periph = \<lparr>adc_event = \<lparr>active = True\<rparr>\<rparr>, trace = [Stored [200], Call_enable]\<rparr>) \<and>
   AnalogStreamStateRegister_write U8 [0]
     \<lparr>self = \<lparr>reg_typ = U8, reg_value = PTuple [200]\<rparr>,
      periph = \<lparr>adc_event = \<lparr>active = True\<rparr>\<rparr>, trace = []\<rparr>
   = (Inr (),
     \<lparr>self = \<lparr>reg_typ = U8, reg_value = PTuple [0]\<rparr>,
      periph = \<lparr>adc_event = \<lparr>active = False\<rparr>\<rparr>, trace = [Stored [0], Call_disable]\<rparr>)"
  using AnalogStreamStateRegister_write_threshold [of U8
      "\<lparr>self = \<lparr>reg_typ = U8, reg_value = PInt 0\<rparr>,
        periph = \<lparr>adc_event = \<lparr>active = False\<rparr>\<rparr>, trace = []\<rparr>" 200, THEN conjunct1]
    AnalogStreamStateRegister_write_threshold [of U8
      "\<lparr>self = \<lparr>reg_typ = U8, reg_value = PTuple [200]\<rparr>,
        periph = \<lparr>adc_event = \<lparr>active = True\<rparr>\<rparr>, trace = []\<rparr>" 0, THEN conjunct1]
  by simp

section \<open>Reads of the live-sampling registers\<close>

text \<open>
  Claim C8 as stated says that a read of the ADC register or of the digital input register
  refreshes the cached value from the live sample. It does not: with the sample 5 both reads
  return \<^verbatim>\<open>(5,)\<close>, and the cached value is afterwards what it was before.
\<close>

theorem live_read_refresh_counterexample:
  "fst (AdcRegister_read U16
     \<lparr>self = \<lparr>reg_typ = U16, reg_value = PNone\<rparr>, periph = \<lparr>sample = 5\<rparr>, trace = []\<rparr>)
     = Inr (PTuple [5]) \<and>
   reg_value (self (snd (AdcRegister_read U16
     \<lparr>self = \<lparr>reg_typ = U16, reg_value = PNone\<rparr>, periph = \<lparr>sample = 5\<rparr>, trace = []\<rparr>)))
     = PNone \<and>
   reg_value (self (snd (AdcRegister_read U16
     \<lparr>self = \<lparr>reg_typ = U16, reg_value = PNone\<rparr>, periph = \<lparr>sample = 5\<rparr>, trace = []\<rparr>)))
     \<noteq> PTuple [5] \<and>
   fst (HarpDigitalInputArrayRegister_read U8
     \<lparr>self = \<lparr>reg_typ = U8, reg_value = PInt 0\<rparr>, periph = \<lparr>state = 5\<rparr>, trace = []\<rparr>)
     = Inr (PTuple [5]) \<and>
   reg_value (self (snd (HarpDigitalInputArrayRegister_read U8
     \<lparr>self = \<lparr>reg_typ = U8, reg_value = PInt 0\<rparr>, periph = \<lparr>state = 5\<rparr>, trace = []\<rparr>)))
     = PInt 0 \<and>
   reg_value (self (snd (HarpDigitalInputArrayRegister_read U8
     \<lparr>self = \<lparr>reg_typ = U8, reg_value = PInt 0\<rparr>, periph = \<lparr>state = 5\<rparr>, trace = []\<rparr>)))
     \<noteq> PTuple [5]"
  by (simp add: AdcRegister_read_def HarpDigitalInputArrayRegister_read_def
      HarpRegister_read_def read_u16_def py_defs)

text \<open>
  Claim C8, amended. A read of the ADC register or of the digital input register with the
  register's type returns the live sample of the peripheral as a 1-tuple; a read with
  another type raises TypeMismatch. In both cases every field of the register, the cached
  value included, is unchanged by the read.
\<close>

theorem live_read_returns_sample_keeps_register:
  "(t = reg_typ (self w) \<longrightarrow>
      AdcRegister_read t w =
        (Inr (PTuple [sample (periph w)]), w\<lparr>trace := trace w @ [Call_read_u16]\<rparr>)) \<and>
   (t \<noteq> reg_typ (self w) \<longrightarrow> AdcRegister_read t w = (Inl TypeMismatch, w)) \<and>
   self (snd (AdcRegister_read t w)) = self w \<and>
   (t' = reg_typ (self w') \<longrightarrow>
      HarpDigitalInputArrayRegister_read t' w' = (Inr (PTuple [state (periph w')]), w')) \<and>
   (t' \<noteq> reg_typ (self w') \<longrightarrow>
      HarpDigitalInputArrayRegister_read t' w' = (Inl TypeMismatch, w')) \<and>
   self (snd (HarpDigitalInputArrayRegister_read t' w')) = self w'"
  by (simp add: AdcRegister_read_def HarpDigitalInputArrayRegister_read_def
      HarpRegister_read_def read_u16_def py_defs)

theorem live_read_returns_sample_keeps_register_witness:
  "AdcRegister_read U16
     \<lparr>self = \<lparr>reg_typ = U16, reg_value = PNone\<rparr>, periph = \<lparr>sample = 5\<rparr>, trace = []\<rparr>
   = (Inr (PTuple [5]),
     \<lparr>self = \<lparr>reg_typ = U16, reg_value = PNone\<rparr>, periph = \<lparr>sample = 5\<rparr>,
      trace = [Call_read_u16]\<rparr>) \<and>
   HarpDigitalInputArrayRegister_read U8
     \<lparr>self = \<lparr>reg_typ = U8, reg_value = PInt 0\<rparr>, periph = \<lparr>state = 5\<rparr>, trace = []\<rparr>
   = (Inr (PTuple [5]),
     \<lparr>self = \<lparr>reg_typ = U8, reg_value = PInt 0\<rparr>, periph = \<lparr>state = 5\<rparr>, trace = []\<rparr>) \<and>
   AdcRegister_read U8
     \<lparr>self = \<lparr>reg_typ = U16, reg_value = PNone\<rparr>, periph = \<lparr>sample = 5\<rparr>, trace = []\<rparr>
   = (Inl TypeMismatch,
     \<lparr>self = \<lparr>reg_typ = U16, reg_value = PNone\<rparr>, periph = \<lparr>sample = 5\<rparr>, trace = []\<rparr>) \<and>
   HarpDigitalInputArrayRegister_read U16
     \<lparr>self = \<lparr>reg_typ = U8, reg_value = PInt 0\<rparr>, periph = \<lparr>state = 5\<rparr>, trace = []\<rparr>
   = (Inl TypeMismatch,
     \<lparr>self = \<lparr>reg_typ = U8, reg_value = PInt 0\<rparr>, periph = \<lparr>state = 5\<rparr>, trace = []\<rparr>)"
  using live_read_returns_sample_keeps_register [of U16
      "\<lparr>self = \<lparr>reg_typ = U16, reg_value = PNone\<rparr>, periph = \<lparr>sample = 5\<rparr>, trace = []\<rparr>"
      U8
      "\<lparr>self = \<lparr>reg_typ = U8, reg_value = PInt 0\<rparr>, periph = \<lparr>state = 5\<rparr>, trace = []\<rparr>"]
    live_read_returns_sample_keeps_register [of U8
      "\<lparr>self = \<lparr>reg_typ = U16, reg_value = PNone\<rparr>, periph = \<lparr>sample = 5\<rparr>, trace = []\<rparr>"
      U16
      "\<lparr>self = \<lparr>reg_typ = U8, reg_value = PInt 0\<rparr>, periph = \<lparr>state = 5\<rparr>, trace = []\<rparr>"]
  by simp

end
